theory Spec2Isabelle
  imports Main "HOL-Library.Sublist"
begin

section \<open>Strings and exceptions of the script\<close>

text \<open>
  The script \<^verbatim>\<open>.github/workflows/get_aws_access.py\<close> works on Python \<^verbatim>\<open>str\<close> values.
  A string is modelled as a \<^typ>\<open>string\<close> whose characters stand for the code points
  0 to 255; the credential text the script handles is ASCII. The characters below are the
  ones the script names.
\<close>

definition eq_sign :: char where
  "eq_sign = CHR ''=''"

definition newline :: char where
  "newline = CHR 0x0A"

text \<open>
  \<^verbatim>\<open>str.isspace\<close> on one code point below 256: TAB, LF, VT, FF, CR, the separators
  FS, GS, RS, US, the space, NEL (0x85) and the no-break space (0xA0).
\<close>

definition isspace :: "char \<Rightarrow> bool" where
  "isspace c = (c \<in> set [CHR 0x09, CHR 0x0A, CHR 0x0B, CHR 0x0C, CHR 0x0D,
                          CHR 0x1C, CHR 0x1D, CHR 0x1E, CHR 0x1F, CHR 0x20,
                          CHR 0x85, CHR 0xA0])"

text \<open>
  The exceptions that reach the caller. \<open>BrowserError\<close> stands for whatever the browser
  library or the operating system raises (a timeout, a missing element); \<open>Exception\<close> is
  \<^verbatim>\<open>Exception(msg)\<close>, \<open>ExceptionOf e\<close> is \<^verbatim>\<open>Exception(e)\<close>, and \<open>During e c\<close> is the
  exception \<open>e\<close> raised while \<open>c\<close> was being handled (Python stores \<open>c\<close> in
  \<^verbatim>\<open>e.__context__\<close>).
\<close>

datatype exn =
    IndexError
  | TypeError
  | AttributeError
  | KeyError string
  | BrowserError string
  | Exception string
  | ExceptionOf exn
  | During exn exn

section \<open>The credential extractor\<close>

text \<open>
  \<^verbatim>\<open>s.split()\<close>: runs of whitespace separate the tokens, leading and trailing
  whitespace is dropped, and no token is empty.
\<close>

function split_ws :: "string \<Rightarrow> string list" where
  "split_ws s =
     (case dropWhile isspace s of
        [] \<Rightarrow> []
      | c # cs \<Rightarrow>
          takeWhile (\<lambda>x. \<not> isspace x) (c # cs)
            # split_ws (dropWhile (\<lambda>x. \<not> isspace x) (c # cs)))"
  by pat_completeness auto
termination
proof (relation "measure length")
  show "wf (measure length)" by simp
next
  fix s :: string and c cs
  assume a: "dropWhile isspace s = c # cs"
  have "\<not> isspace c"
    using a by (metis hd_dropWhile list.sel(1) list.distinct(1))
  then have "length (dropWhile (\<lambda>x. \<not> isspace x) (c # cs)) \<le> length cs"
    by (simp add: length_dropWhile_le)
  moreover have "length (c # cs) \<le> length s"
    using a length_dropWhile_le [of isspace s] by simp
  ultimately show "(dropWhile (\<lambda>x. \<not> isspace x) (c # cs), s) \<in> measure length"
    by simp
qed

text \<open>
  \<^verbatim>\<open>s.split(sep, maxsplit)\<close> for a one-character separator and a bound
  \<open>maxsplit \<ge> 0\<close>: at most \<open>maxsplit\<close> cuts, from the left; the rest stays whole.
\<close>

fun split_max :: "char \<Rightarrow> nat \<Rightarrow> string \<Rightarrow> string list" where
  "split_max sep 0 s = [s]"
| "split_max sep (Suc n) s =
     (case dropWhile (\<lambda>x. x \<noteq> sep) s of
        [] \<Rightarrow> [s]
      | _ # rest \<Rightarrow> takeWhile (\<lambda>x. x \<noteq> sep) s # split_max sep n rest)"

text \<open>\<^verbatim>\<open>s.split(sep)\<close>: a cut at every occurrence of the separator.\<close>

function split_on :: "char \<Rightarrow> string \<Rightarrow> string list" where
  "split_on sep s =
     (case dropWhile (\<lambda>x. x \<noteq> sep) s of
        [] \<Rightarrow> [s]
      | _ # rest \<Rightarrow> takeWhile (\<lambda>x. x \<noteq> sep) s # split_on sep rest)"
  by pat_completeness auto
termination
proof (relation "measure (\<lambda>(sep, s). length s)")
  show "wf (measure (\<lambda>(sep, s). length s))" by simp
next
  fix sep :: char and s :: string and x rest
  assume a: "dropWhile (\<lambda>x. x \<noteq> sep) s = x # rest"
  have "length (x # rest) \<le> length s"
    using a length_dropWhile_le [of "\<lambda>x. x \<noteq> sep" s] by simp
  then show "((sep, rest), (sep, s)) \<in> measure (\<lambda>(sep, s). length s)"
    by simp
qed

text \<open>\<^verbatim>\<open>xs[i]\<close> for an index \<open>i \<ge> 0\<close>: out of range raises \<^verbatim>\<open>IndexError\<close>.\<close>

definition item :: "'a list \<Rightarrow> nat \<Rightarrow> exn + 'a" where
  "item xs i = (if i < length xs then Inr (xs ! i) else Inl IndexError)"

definition bind_exn :: "exn + 'a \<Rightarrow> ('a \<Rightarrow> exn + 'b) \<Rightarrow> exn + 'b" where
  "bind_exn r f = (case r of Inl e \<Rightarrow> Inl e | Inr x \<Rightarrow> f x)"

text \<open>
  \<^verbatim>\<open>AWS.get_secrets\<close>. The three assignments run in the order of the source, so the
  first failing index decides the exception; the log line after them has no part in the
  result and is emitted by the caller's model below.
\<close>

definition get_secrets :: "string \<Rightarrow> exn + (string \<times> string \<times> string)" where
  "get_secrets info_raw =
     (let info = split_ws info_raw in
      bind_exn (item info 1) (\<lambda>tok1.
      bind_exn (item (split_on eq_sign tok1) 1) (\<lambda>aws_access_key_id.
      bind_exn (item info 2) (\<lambda>tok2.
      bind_exn (item (split_on eq_sign tok2) 1) (\<lambda>aws_secret_access_key.
      bind_exn (item info 3) (\<lambda>tok3.
      bind_exn (item (split_max eq_sign 1 tok3) 1) (\<lambda>aws_session_token.
      Inr (aws_access_key_id, aws_secret_access_key, aws_session_token))))))))"

text \<open>
  The text of a token after its first separator: what \<^verbatim>\<open>tok.split(sep, 1)[1]\<close> selects
  when the separator occurs. It is used to state what the extractor returns.
\<close>

definition after_first :: "char \<Rightarrow> string \<Rightarrow> string" where
  "after_first sep s = tl (dropWhile (\<lambda>x. x \<noteq> sep) s)"

section \<open>Persistence\<close>

text \<open>
  The files of the working directory, by path. \<^verbatim>\<open>open(path, 'a')\<close> creates a missing
  file and leaves an existing one as it is; every \<^verbatim>\<open>write\<close> on a file opened for
  appending adds its text at the end. Faults of the operating system during the writes
  are outside the model; a failing \<^verbatim>\<open>open\<close> is part of the entry point's model below.
\<close>

type_synonym files = "string \<rightharpoonup> string"

definition content :: "files \<Rightarrow> string \<Rightarrow> string" where
  "content fs path = (case fs path of None \<Rightarrow> [] | Some c \<Rightarrow> c)"

definition open_append :: "string \<Rightarrow> files \<Rightarrow> files" where
  "open_append path fs = fs(path \<mapsto> content fs path)"

definition file_write :: "string \<Rightarrow> string \<Rightarrow> files \<Rightarrow> files" where
  "file_write path txt fs = fs(path \<mapsto> content fs path @ txt)"

definition set_github_env :: "string \<Rightarrow> string \<Rightarrow> string \<Rightarrow> files \<Rightarrow> files" where
  "set_github_env aws_access_key_id aws_secret_access_key aws_session_token fs =
     (let env_file = ''creds.txt'';
          fs0 = open_append env_file fs;
          fs1 = file_write env_file (''AWS_ACCESS_KEY_ID='' @ aws_access_key_id @ [newline]) fs0;
          fs2 = file_write env_file (''AWS_SECRET_ACCESS_KEY='' @ aws_secret_access_key @ [newline]) fs1;
          fs3 = file_write env_file (''AWS_SESSION_TOKEN='' @ aws_session_token @ [newline]) fs2
      in fs3)"

text \<open>
  Reading a text back as lines: \<open>lines_of\<close> cuts at every newline and drops the empty
  piece after a final newline; \<open>unlines\<close> ends every line with a newline.
\<close>

definition lines_of :: "string \<Rightarrow> string list" where
  "lines_of txt = (let ps = split_on newline txt in if last ps = [] then butlast ps else ps)"

definition unlines :: "string list \<Rightarrow> string" where
  "unlines ls = concat (map (\<lambda>l. l @ [newline]) ls)"

section \<open>The browser session and the entry point\<close>

text \<open>
  Every call the script makes to the browser library, the operating system or the logger
  is an \<open>action\<close>; a run records the actions it calls, in order, in its trace. A locator
  is the selector of an element inside the frame \<^verbatim>\<open>iframe.tool_launch\<close>. Timeouts are in
  milliseconds, and 0 stands for no bound.
\<close>

datatype action =
    StartPlaywright
  | LaunchChromium bool
  | NewContext
  | NewPage
  | Goto string
  | Click string
  | Fill string string
  | Screenshot string
  | WaitForUrl string nat
  | WaitForLoadState string nat
  | LocatorWaitFor string string nat
  | LocatorGetAttribute string string
  | LocatorClick string
  | LocatorTextContent string
  | MakeDirs string
  | OpenFile string string
  | LogInfo string
  | LogError string

text \<open>
  What the world outside the script answers: a call returns, raises, or never returns (the
  unbounded waits of \<^verbatim>\<open>configure_aws\<close> can block for ever). The world also holds the
  values the script reads: the process environment, the clock (\<^verbatim>\<open>int(time.time())\<close>),
  the \<^verbatim>\<open>class\<close> attribute of the status indicator and the text of the credentials box
  (both \<^verbatim>\<open>Optional[str]\<close> in the library).
\<close>

datatype response = Done | Raises exn | Hangs

record world =
  respond :: "action \<Rightarrow> response"
  environ :: "string \<rightharpoonup> string"
  clock :: int
  attribute :: "string \<Rightarrow> string \<Rightarrow> string option"
  text_content :: "string \<Rightarrow> string option"

record state =
  trace :: "action list"
  files :: files

datatype 'a outcome = Ret 'a | Raise exn | Hang

type_synonym 'a io = "world \<Rightarrow> state \<Rightarrow> 'a outcome \<times> state"

definition ret :: "'a \<Rightarrow> 'a io" where
  "ret x = (\<lambda>w st. (Ret x, st))"

definition raise :: "exn \<Rightarrow> 'a io" where
  "raise e = (\<lambda>w st. (Raise e, st))"

definition bind :: "'a io \<Rightarrow> ('a \<Rightarrow> 'b io) \<Rightarrow> 'b io" where
  "bind m f =
     (\<lambda>w st. case m w st of
        (Ret x, st') \<Rightarrow> f x w st'
      | (Raise e, st') \<Rightarrow> (Raise e, st')
      | (Hang, st') \<Rightarrow> (Hang, st'))"

text \<open>A block of statements, run in order until one raises or blocks.\<close>

fun steps :: "unit io list \<Rightarrow> unit io" where
  "steps [] = ret ()"
| "steps (m # ms) = bind m (\<lambda>_. steps ms)"

text \<open>
  \<^verbatim>\<open>try: body except Exception as e: handler(e)\<close>. An exception raised by the handler
  carries the handled one as its context.
\<close>

definition try_except :: "'a io \<Rightarrow> (exn \<Rightarrow> 'a io) \<Rightarrow> 'a io" where
  "try_except body handler =
     (\<lambda>w st. case body w st of
        (Raise e, st') \<Rightarrow>
          (case handler e w st' of
             (Raise e', st'') \<Rightarrow> (Raise (During e' e), st'')
           | r \<Rightarrow> r)
      | r \<Rightarrow> r)"

text \<open>A call to the outside: recorded in the trace, then answered by the world.\<close>

definition perform :: "action \<Rightarrow> unit io" where
  "perform a =
     (\<lambda>w st. let st' = st\<lparr>trace := trace st @ [a]\<rparr> in
        case respond w a of
          Done \<Rightarrow> (Ret (), st')
        | Raises e \<Rightarrow> (Raise e, st')
        | Hangs \<Rightarrow> (Hang, st'))"

text \<open>The logger only records.\<close>

definition log_info :: "string \<Rightarrow> unit io" where
  "log_info msg = (\<lambda>w st. (Ret (), st\<lparr>trace := trace st @ [LogInfo msg]\<rparr>))"

definition log_error :: "string \<Rightarrow> unit io" where
  "log_error msg = (\<lambda>w st. (Ret (), st\<lparr>trace := trace st @ [LogError msg]\<rparr>))"

definition getenv :: "string \<Rightarrow> string io" where
  "getenv name =
     (\<lambda>w st. case environ w name of None \<Rightarrow> (Raise (KeyError name), st) | Some v \<Rightarrow> (Ret v, st))"

definition time_now :: "int io" where
  "time_now = (\<lambda>w st. (Ret (clock w), st))"

definition get_attribute :: "string \<Rightarrow> string \<Rightarrow> string option io" where
  "get_attribute sel name =
     bind (perform (LocatorGetAttribute sel name)) (\<lambda>_ w st. (Ret (attribute w sel name), st))"

definition get_text_content :: "string \<Rightarrow> string option io" where
  "get_text_content sel =
     bind (perform (LocatorTextContent sel)) (\<lambda>_ w st. (Ret (text_content w sel), st))"

text \<open>The decimal text of an integer, as an f-string prints it.\<close>

fun digits :: "nat \<Rightarrow> string" where
  "digits n =
     (if n < 10 then [''0123456789'' ! n]
      else digits (n div 10) @ [''0123456789'' ! (n mod 10)])"

definition str_int :: "int \<Rightarrow> string" where
  "str_int i = (if i < 0 then CHR ''-'' # digits (nat (- i)) else digits (nat i))"

text \<open>\<^verbatim>\<open>class AWS\<close>: the only field the methods read back is the screenshot directory.\<close>

record AWS =
  screenshots :: string

definition login :: "AWS \<Rightarrow> string \<Rightarrow> string \<Rightarrow> unit io" where
  "login self email password =
     steps
      [log_info ''[*] Fazendo login...'',
       perform (Goto ''https://www.awsacademy.com/vforcesite/LMS_Login''),
       perform (Click ''body > div.splash-body > a:nth-child(1) > button''),
       perform (Screenshot (screenshots self @ ''/1-click_start.png'')),
       perform (Fill ''#pseudonym_session_unique_id'' email),
       perform (Fill ''#pseudonym_session_password'' password),
       perform (Screenshot (screenshots self @ ''/2-send_data.png'')),
       perform (Click
         ''#login_form > div.ic-Login__actions > div.ic-Form-control.ic-Form-control--login > input''),
       try_except
         (steps
           [perform (WaitForUrl ''https://awsacademy.instructure.com/?login_success=1'' 15000),
            log_info (''[+] Login conclu'' @ [CHR 0xED] @ ''do com sucesso''),
            perform (Screenshot (screenshots self @ ''/3-conclude_login.png''))])
         (\<lambda>_. steps
           [log_error (''[!] Falha no login: credenciais inv'' @ [CHR 0xE1] @ ''lidas ou p''
                        @ [CHR 0xE1] @ ''gina n'' @ [CHR 0xE3] @ ''o carregou corretamente''),
            perform (Screenshot (screenshots self @ ''/3-login_error.png'')),
            raise (Exception
              ''Login falhou! Verifique suas credenciais ou se o site mudou o layout.'')])]"

definition AWS_init :: "string \<Rightarrow> string \<Rightarrow> bool \<Rightarrow> AWS io" where
  "AWS_init email password headless =
     (let self = \<lparr>screenshots = ''screenshots''\<rparr> in
      bind (steps
             [perform StartPlaywright,
              perform (LaunchChromium headless),
              perform NewContext,
              perform NewPage,
              log_info ''[+] Navegador iniciado'',
              login self email password])
        (\<lambda>_. ret self))"

text \<open>
  \<^verbatim>\<open>'led-green' not in classe\<close> is a substring test on a string and a \<^verbatim>\<open>TypeError\<close> on
  \<^verbatim>\<open>None\<close>.
\<close>

definition configure_aws :: "AWS \<Rightarrow> string \<Rightarrow> string option io" where
  "configure_aws self conta =
     bind (steps
            [log_info ''[+] Entrando na AWS'',
             perform (Goto (''https://awsacademy.instructure.com/courses/'' @ conta
                             @ ''/modules/items/12498015'')),
             perform (WaitForLoadState ''domcontentloaded'' 0),
             perform (Screenshot (screenshots self @ ''/4-configure_aws.png'')),
             log_info ''[*] Verificando status da conta'',
             perform (LocatorWaitFor ''#vmstatus'' ''attached'' 30000)]) (\<lambda>_.
     bind (get_attribute ''#vmstatus'' ''class'') (\<lambda>classe.
     bind (steps
            [perform (Screenshot (screenshots self @ ''/5-configure_aws_status.png'')),
             (case classe of
                None \<Rightarrow> raise TypeError
              | Some c \<Rightarrow>
                  if \<not> sublist ''led-green'' c
                  then steps
                        [log_info ''[*] Inicia a conta da AWS'',
                         perform (LocatorClick ''#launchclabsbtn''),
                         perform (LocatorWaitFor ''#vmstatus.led-green'' ''visible'' 0)]
                  else ret ()),
             log_info (''[*] Coletando informa'' @ [CHR 0xE7, CHR 0xF5] @ ''es da AWS''),
             perform (LocatorClick ''#detailbtn2''),
             perform (LocatorClick ''#clikeyboxbtn''),
             perform (Screenshot (screenshots self @ ''/6-show_aws_credentials.png'')),
             perform (LocatorWaitFor ''#clikeybox > pre > span'' ''attached'' 0)]) (\<lambda>_.
     get_text_content ''#clikeybox > pre > span'')))"

text \<open>
  \<^verbatim>\<open>get_secrets\<close> as the entry point calls it: \<^verbatim>\<open>None.split()\<close> is an
  \<^verbatim>\<open>AttributeError\<close>, and the log line follows a successful parse.
\<close>

definition get_secrets_io :: "string option \<Rightarrow> (string \<times> string \<times> string) io" where
  "get_secrets_io info_raw =
     (case info_raw of
        None \<Rightarrow> raise AttributeError
      | Some raw \<Rightarrow>
          (case get_secrets raw of
             Inl e \<Rightarrow> raise e
           | Inr triple \<Rightarrow> bind (log_info ''[+] Dados coletados'') (\<lambda>_. ret triple)))"

definition set_github_env_io :: "string \<Rightarrow> string \<Rightarrow> string \<Rightarrow> unit io" where
  "set_github_env_io aws_access_key_id aws_secret_access_key aws_session_token =
     bind (perform (OpenFile ''creds.txt'' ''a'')) (\<lambda>_ w st.
       (Ret (), st\<lparr>files :=
          set_github_env aws_access_key_id aws_secret_access_key aws_session_token (files st)\<rparr>))"

text \<open>The body of the entry point's \<^verbatim>\<open>try\<close> and its \<^verbatim>\<open>except\<close> handler.\<close>

definition try_body :: "AWS \<Rightarrow> string \<Rightarrow> unit io" where
  "try_body aws CONTA =
     bind (configure_aws aws CONTA) (\<lambda>info_raw.
     bind (get_secrets_io info_raw) (\<lambda>(aws_access_key_id, aws_secret_access_key, aws_session_token).
     set_github_env_io aws_access_key_id aws_secret_access_key aws_session_token))"

definition error_path :: "int \<Rightarrow> string" where
  "error_path timestamp = ''screenshots'' @ ''/'' @ ''screenshot_error_'' @ str_int timestamp @ ''.png''"

definition on_error :: "exn \<Rightarrow> unit io" where
  "on_error error =
     bind (perform (MakeDirs ''screenshots'')) (\<lambda>_.
     bind time_now (\<lambda>timestamp.
     steps
      [perform (Screenshot (error_path timestamp)),
       log_info (''Screenshot salvo em: '' @ error_path timestamp),
       raise (ExceptionOf error)]))"

definition main :: "unit io" where
  "main =
     bind (getenv ''EMAIL'') (\<lambda>EMAIL.
     bind (getenv ''PASSWORD'') (\<lambda>SENHA.
     bind (AWS_init EMAIL SENHA True) (\<lambda>aws.
     try_except (try_body aws ''130670'') on_error)))"

section \<open>Runs of the script\<close>

text \<open>
  A run starts with an empty trace. The calls that have to return for the login to reach
  the wait for the success URL, and for \<^verbatim>\<open>configure_aws\<close> to reach the test of the status
  indicator, are listed in the order of the source.
\<close>

definition login_calls :: "string \<Rightarrow> string \<Rightarrow> action list" where
  "login_calls email password =
     [StartPlaywright, LaunchChromium True, NewContext, NewPage,
      Goto ''https://www.awsacademy.com/vforcesite/LMS_Login'',
      Click ''body > div.splash-body > a:nth-child(1) > button'',
      Screenshot ''screenshots/1-click_start.png'',
      Fill ''#pseudonym_session_unique_id'' email,
      Fill ''#pseudonym_session_password'' password,
      Screenshot ''screenshots/2-send_data.png'',
      Click ''#login_form > div.ic-Login__actions > div.ic-Form-control.ic-Form-control--login > input'']"



text \<open>
  Sample worlds: every call returns and the lab is running; the success URL is never
  reached; the lab is stopped; the credentials box holds another text.
\<close>

definition init_state :: state where
  "init_state = \<lparr>trace = [], files = Map.empty\<rparr>"

definition world_ok :: world where
  "world_ok =
     \<lparr>respond = (\<lambda>_. Done),
      environ = [''EMAIL'' \<mapsto> ''student@example.com'', ''PASSWORD'' \<mapsto> ''hunter2''],
      clock = 1700000000,
      attribute = (\<lambda>sel name. Some ''led led-green''),
      text_content = (\<lambda>sel. Some
        ''[default] aws_access_key_id=AKIA123 aws_secret_access_key=SECRET456 aws_session_token=TOK=EN=789'')\<rparr>"

definition world_login_timeout :: world where
  "world_login_timeout =
     world_ok\<lparr>respond := (\<lambda>a.
        if a = WaitForUrl ''https://awsacademy.instructure.com/?login_success=1'' 15000
        then Raises (BrowserError ''Timeout 15000ms exceeded.'') else Done)\<rparr>"


definition world_bad_text :: world where
  "world_bad_text = world_ok\<lparr>text_content := (\<lambda>sel. Some ''session expired'')\<rparr>"

section \<open>What the extractor returns\<close>

declare split_ws.simps [simp del] split_on.simps [simp del] digits.simps [simp del]

lemma split_ws_Nil [simp]: "split_ws [] = []"
  by (simp add: split_ws.simps)

lemma split_ws_dropWhile: "split_ws (dropWhile isspace s) = split_ws s"
  by (simp add: split_ws.simps [of s] split_ws.simps [of "dropWhile isspace s"])

lemma split_ws_skip: "list_all isspace w \<Longrightarrow> split_ws (w @ s) = split_ws s"
proof -
  assume "list_all isspace w"
  then have "dropWhile isspace (w @ s) = dropWhile isspace s"
    by (simp add: list_all_iff)
  then show ?thesis
    by (metis split_ws_dropWhile)
qed

lemma split_ws_token:
  assumes "t \<noteq> []" "list_all (\<lambda>x. \<not> isspace x) t" "s = [] \<or> isspace (hd s)"
  shows "split_ws (t @ s) = t # split_ws s"
proof -
  obtain c cs where t: "t = c # cs" using assms(1) by (cases t) auto
  have nc: "\<not> isspace c" using assms(2) t by simp
  have all: "\<forall>x\<in>set t. \<not> isspace x" using assms(2) by (simp add: list_all_iff)
  have tw: "takeWhile (\<lambda>x. \<not> isspace x) (t @ s) = t"
    using assms(3) all by (cases s) (auto simp: takeWhile_append2 takeWhile_tail)
  have dw: "dropWhile (\<lambda>x. \<not> isspace x) (t @ s) = s"
    using assms(3) all by (cases s) (auto simp: dropWhile_append2)
  have "dropWhile isspace (t @ s) = c # (cs @ s)" using nc t by simp
  then show ?thesis
    using tw dw t by (subst split_ws.simps) simp
qed


lemma split_ws_tokens:
  "t \<in> set (split_ws s) \<Longrightarrow> t \<noteq> [] \<and> list_all (\<lambda>x. \<not> isspace x) t"
proof (induction s rule: split_ws.induct)
  case (1 s)
  show ?case
  proof (cases "dropWhile isspace s")
    case Nil
    then have "split_ws s = []" by (simp only: split_ws.simps [of s] list.case)
    then show ?thesis using "1.prems" by simp
  next
    case (Cons c cs)
    have nc: "\<not> isspace c"
      using Cons by (metis hd_dropWhile list.sel(1) list.distinct(1))
    from "1.prems" Cons
    have "t = takeWhile (\<lambda>x. \<not> isspace x) (c # cs)
        \<or> t \<in> set (split_ws (dropWhile (\<lambda>x. \<not> isspace x) (c # cs)))"
      by (simp add: split_ws.simps [of s])
    then show ?thesis
    proof
      assume "t = takeWhile (\<lambda>x. \<not> isspace x) (c # cs)"
      then show ?thesis using nc
        by (auto simp: list_all_iff dest: set_takeWhileD)
    next
      assume "t \<in> set (split_ws (dropWhile (\<lambda>x. \<not> isspace x) (c # cs)))"
      then show ?thesis using "1.IH" [OF Cons] by simp
    qed
  qed
qed

lemma dropWhile_no_sep: "sep \<notin> set s \<Longrightarrow> dropWhile (\<lambda>x. x \<noteq> sep) s = []"
  by (induction s) auto

lemma takeWhile_no_sep: "sep \<notin> set s \<Longrightarrow> takeWhile (\<lambda>x. x \<noteq> sep) s = s"
  by (induction s) auto

lemma split_on_none: "sep \<notin> set s \<Longrightarrow> split_on sep s = [s]"
  by (subst split_on.simps) (simp add: dropWhile_no_sep)

lemma dropWhile_sep:
  "sep \<in> set s \<Longrightarrow> dropWhile (\<lambda>x. x \<noteq> sep) s = sep # after_first sep s"
  unfolding after_first_def
  by (metis (mono_tags, lifting) dropWhile_eq_Nil_conv hd_dropWhile list.collapse)

lemma split_on_some:
  "sep \<in> set s \<Longrightarrow>
     split_on sep s = takeWhile (\<lambda>x. x \<noteq> sep) s # split_on sep (after_first sep s)"
  by (subst split_on.simps) (simp add: dropWhile_sep)

lemma split_on_hd: "hd (split_on sep s) = takeWhile (\<lambda>x. x \<noteq> sep) s"
  by (cases "sep \<in> set s") (simp_all add: split_on_some split_on_none takeWhile_no_sep)

lemma split_on_not_Nil: "split_on sep s \<noteq> []"
  by (cases "sep \<in> set s") (simp_all add: split_on_some split_on_none)

lemma item_split_on_1:
  "item (split_on sep s) (Suc 0) =
     (if sep \<in> set s then Inr (takeWhile (\<lambda>x. x \<noteq> sep) (after_first sep s))
      else Inl IndexError)"
proof (cases "sep \<in> set s")
  case True
  have "split_on sep (after_first sep s) \<noteq> []" by (rule split_on_not_Nil)
  then have "split_on sep (after_first sep s) ! 0 = takeWhile (\<lambda>x. x \<noteq> sep) (after_first sep s)"
    using split_on_hd [of sep "after_first sep s"] by (simp add: hd_conv_nth)
  then show ?thesis using True \<open>split_on sep (after_first sep s) \<noteq> []\<close>
    by (simp add: item_def split_on_some)
next
  case False
  then show ?thesis by (simp add: item_def split_on_none)
qed

lemma item_split_max_1:
  "item (split_max sep (Suc 0) s) (Suc 0) =
     (if sep \<in> set s then Inr (after_first sep s) else Inl IndexError)"
proof (cases "sep \<in> set s")
  case True
  then show ?thesis by (simp add: item_def dropWhile_sep)
next
  case False
  then show ?thesis by (simp add: item_def dropWhile_no_sep)
qed

lemma get_secrets_eq:
  "get_secrets raw =
     (let info = split_ws raw in
      if 4 \<le> length info \<and> eq_sign \<in> set (info ! 1) \<and> eq_sign \<in> set (info ! 2)
           \<and> eq_sign \<in> set (info ! 3)
      then Inr (takeWhile (\<lambda>x. x \<noteq> eq_sign) (after_first eq_sign (info ! 1)),
                takeWhile (\<lambda>x. x \<noteq> eq_sign) (after_first eq_sign (info ! 2)),
                after_first eq_sign (info ! 3))
      else Inl IndexError)"
  unfolding get_secrets_def Let_def
  by (simp add: item_split_on_1 item_split_max_1 bind_exn_def item_def [of "split_ws raw"]
        del: split_max.simps)


lemma after_first_append:
  "sep \<notin> set n \<Longrightarrow> after_first sep (n @ sep # v) = v"
  by (simp add: after_first_def dropWhile_append3 dropWhile_no_sep)

lemma takeWhile_value:
  "sep \<notin> set v \<Longrightarrow> r = [] \<or> hd r = sep \<Longrightarrow> takeWhile (\<lambda>x. x \<noteq> sep) (v @ r) = v"
  by (cases r) (auto simp: takeWhile_no_sep takeWhile_tail)

lemma get_secrets_tokens:
  assumes toks: "split_ws raw =
      t0 # (n1 @ eq_sign # v1 @ r1) # (n2 @ eq_sign # v2 @ r2) # (n3 @ eq_sign # v3) # rest"
    and "eq_sign \<notin> set n1" "eq_sign \<notin> set v1" "r1 = [] \<or> hd r1 = eq_sign"
    and "eq_sign \<notin> set n2" "eq_sign \<notin> set v2" "r2 = [] \<or> hd r2 = eq_sign"
    and "eq_sign \<notin> set n3"
  shows "get_secrets raw = Inr (v1, v2, v3)"
  using assms(2-)
  by (simp add: get_secrets_eq toks after_first_append takeWhile_value)

lemma split_ws_sublist: "t \<in> set (split_ws s) \<Longrightarrow> sublist t s"
proof (induction s rule: split_ws.induct)
  case (1 s)
  show ?case
  proof (cases "dropWhile isspace s")
    case Nil
    then have "split_ws s = []" by (simp only: split_ws.simps [of s] list.case)
    then show ?thesis using "1.prems" by simp
  next
    case (Cons c cs)
    define T where "T = takeWhile (\<lambda>x. \<not> isspace x) (c # cs)"
    define D where "D = dropWhile (\<lambda>x. \<not> isspace x) (c # cs)"
    have s: "s = takeWhile isspace s @ T @ D"
      unfolding T_def D_def using Cons
      by (metis takeWhile_dropWhile_id)
    have "split_ws s = T # split_ws D"
      unfolding T_def D_def by (simp only: split_ws.simps [of s] Cons list.case)
    with "1.prems" have "t = T \<or> t \<in> set (split_ws D)" by simp
    then show ?thesis
    proof
      assume "t = T"
      then show ?thesis using s by (metis sublist_appendI)
    next
      assume "t \<in> set (split_ws D)"
      then have "sublist t D" using "1.IH" [OF Cons] unfolding D_def by simp
      then obtain ps ss where "D = ps @ t @ ss" unfolding sublist_def by blast
      then have "s = (takeWhile isspace s @ T @ ps) @ t @ ss" using s by simp
      then show ?thesis by (metis sublist_appendI)
    qed
  qed
qed

lemma token_decompose:
  assumes "sep \<in> set tok"
  shows "tok = takeWhile (\<lambda>x. x \<noteq> sep) tok @ sep # after_first sep tok"
  using dropWhile_sep [OF assms] takeWhile_dropWhile_id [of "\<lambda>x. x \<noteq> sep" tok] by simp

lemma sublist_trans: "sublist a b \<Longrightarrow> sublist b c \<Longrightarrow> sublist a c"
  unfolding sublist_def by (metis append.assoc)

lemma split_ws_four:
  assumes "list_all isspace w0"
    and "t0 \<noteq> []" "list_all (\<lambda>x. \<not> isspace x) t0" "w1 \<noteq> []" "list_all isspace w1"
    and "t1 \<noteq> []" "list_all (\<lambda>x. \<not> isspace x) t1" "w2 \<noteq> []" "list_all isspace w2"
    and "t2 \<noteq> []" "list_all (\<lambda>x. \<not> isspace x) t2" "w3 \<noteq> []" "list_all isspace w3"
    and "t3 \<noteq> []" "list_all (\<lambda>x. \<not> isspace x) t3" "rest = [] \<or> isspace (hd rest)"
  shows "split_ws (w0 @ t0 @ w1 @ t1 @ w2 @ t2 @ w3 @ t3 @ rest)
           = t0 # t1 # t2 # t3 # split_ws rest"
proof -
  have sp: "\<And>w r. w \<noteq> [] \<Longrightarrow> list_all isspace w \<Longrightarrow> w @ r = [] \<or> isspace (hd (w @ r))"
    by (case_tac w) auto
  have "split_ws (w3 @ t3 @ rest) = t3 # split_ws rest"
    using assms by (simp add: split_ws_skip split_ws_token)
  moreover have "split_ws (w2 @ t2 @ w3 @ t3 @ rest) = t2 # split_ws (w3 @ t3 @ rest)"
    using assms sp [of w3 "t3 @ rest"] by (simp add: split_ws_skip split_ws_token)
  moreover have "split_ws (w1 @ t1 @ w2 @ t2 @ w3 @ t3 @ rest)
      = t1 # split_ws (w2 @ t2 @ w3 @ t3 @ rest)"
    using assms sp [of w2 "t2 @ w3 @ t3 @ rest"] by (simp add: split_ws_skip split_ws_token)
  moreover have "split_ws (w0 @ t0 @ w1 @ t1 @ w2 @ t2 @ w3 @ t3 @ rest)
      = t0 # split_ws (w1 @ t1 @ w2 @ t2 @ w3 @ t3 @ rest)"
    using assms sp [of w1 "t1 @ w2 @ t2 @ w3 @ t3 @ rest"]
    by (simp add: split_ws_skip split_ws_token)
  ultimately show ?thesis by simp
qed

lemma get_secrets_shape:
  assumes "get_secrets raw = Inr (k, s, t)"
  shows "(\<exists>t0 n1 r1 n2 r2 n3 rest.
            split_ws raw = t0 # (n1 @ eq_sign # k @ r1) # (n2 @ eq_sign # s @ r2)
                              # (n3 @ eq_sign # t) # rest
            \<and> eq_sign \<notin> set n1 \<and> eq_sign \<notin> set n2 \<and> eq_sign \<notin> set n3
            \<and> (r1 = [] \<or> hd r1 = eq_sign) \<and> (r2 = [] \<or> hd r2 = eq_sign))
         \<and> eq_sign \<notin> set k \<and> eq_sign \<notin> set s
         \<and> list_all (\<lambda>x. \<not> isspace x) (k @ s @ t)
         \<and> sublist k raw \<and> sublist s raw \<and> sublist t raw"
proof -
  define info where "info = split_ws raw"
  have ok: "4 \<le> length info" "eq_sign \<in> set (info ! 1)" "eq_sign \<in> set (info ! 2)"
    "eq_sign \<in> set (info ! 3)"
    using assms unfolding info_def
    by (auto simp: get_secrets_eq Let_def split: if_splits)
  have k: "k = takeWhile (\<lambda>x. x \<noteq> eq_sign) (after_first eq_sign (info ! 1))"
    and s: "s = takeWhile (\<lambda>x. x \<noteq> eq_sign) (after_first eq_sign (info ! 2))"
    and t: "t = after_first eq_sign (info ! 3)"
    using assms unfolding info_def
    by (auto simp: get_secrets_eq Let_def split: if_splits)
  obtain t0 t1 t2 t3 rest where info: "info = t0 # t1 # t2 # t3 # rest"
    using ok(1) by (cases info; cases "tl info"; cases "tl (tl info)"; cases "tl (tl (tl info))") auto
  define n1 where "n1 = takeWhile (\<lambda>x. x \<noteq> eq_sign) t1"
  define r1 where "r1 = dropWhile (\<lambda>x. x \<noteq> eq_sign) (after_first eq_sign t1)"
  define n2 where "n2 = takeWhile (\<lambda>x. x \<noteq> eq_sign) t2"
  define r2 where "r2 = dropWhile (\<lambda>x. x \<noteq> eq_sign) (after_first eq_sign t2)"
  define n3 where "n3 = takeWhile (\<lambda>x. x \<noteq> eq_sign) t3"
  have t1: "t1 = n1 @ eq_sign # k @ r1"
    using token_decompose [of eq_sign t1] ok(2) unfolding info n1_def r1_def k by simp
  have t2: "t2 = n2 @ eq_sign # s @ r2"
    using token_decompose [of eq_sign t2] ok(3) unfolding info n2_def r2_def s by simp
  have t3: "t3 = n3 @ eq_sign # t"
    using token_decompose [of eq_sign t3] ok(4) unfolding info n3_def t by simp
  have n: "eq_sign \<notin> set n1" "eq_sign \<notin> set n2" "eq_sign \<notin> set n3"
    "eq_sign \<notin> set k" "eq_sign \<notin> set s"
    unfolding n1_def n2_def n3_def k s by (auto dest: set_takeWhileD)
  have r: "r1 = [] \<or> hd r1 = eq_sign" "r2 = [] \<or> hd r2 = eq_sign"
    unfolding r1_def r2_def
    using hd_dropWhile [of "\<lambda>x. x \<noteq> eq_sign" "after_first eq_sign t1"]
      hd_dropWhile [of "\<lambda>x. x \<noteq> eq_sign" "after_first eq_sign t2"]
    by blast+
  have dec: "split_ws raw = t0 # (n1 @ eq_sign # k @ r1) # (n2 @ eq_sign # s @ r2)
                              # (n3 @ eq_sign # t) # rest"
    using info t1 t2 t3 unfolding info_def by simp
  have mem: "t1 \<in> set (split_ws raw)" "t2 \<in> set (split_ws raw)" "t3 \<in> set (split_ws raw)"
    using info unfolding info_def by simp_all
  have ns: "list_all (\<lambda>x. \<not> isspace x) t1" "list_all (\<lambda>x. \<not> isspace x) t2"
    "list_all (\<lambda>x. \<not> isspace x) t3"
    using mem split_ws_tokens by blast+
  have nsk: "list_all (\<lambda>x. \<not> isspace x) (k @ s @ t)"
    using ns(1) ns(2) ns(3)
    by (subst (asm) t1, subst (asm) t2, subst (asm) t3) simp
  have "sublist k t1" "sublist s t2" "sublist t t3"
    by (subst t1, metis append_Cons sublist_appendI append.assoc append_Nil,
        subst t2, metis append_Cons sublist_appendI append.assoc append_Nil,
        subst t3, metis append_Cons sublist_appendI append.assoc append_Nil append_Nil2)
  then have sub: "sublist k raw" "sublist s raw" "sublist t raw"
    using mem split_ws_sublist sublist_trans by blast+
  show ?thesis using dec n r nsk sub by blast
qed

lemma get_secrets_no_newline:
  assumes "get_secrets raw = Inr (k, s, t)"
  shows "newline \<notin> set k \<and> newline \<notin> set s \<and> newline \<notin> set t"
proof -
  have "list_all (\<lambda>x. \<not> isspace x) (k @ s @ t)"
    using get_secrets_shape [OF assms] by blast
  moreover have "isspace newline"
    by (simp add: isspace_def newline_def)
  ultimately show ?thesis
    by (auto simp: list_all_iff)
qed

text \<open>
  Claim C2. Whenever the whitespace split of the input has fewer than four tokens, or one of
  the tokens 1, 2, 3 has no \<^verbatim>\<open>=\<close>, \<open>get_secrets\<close> raises \<^verbatim>\<open>IndexError\<close>; the result is
  then no triple at all.
\<close>

theorem get_secrets_malformed:
  assumes "length (split_ws raw) < 4
         \<or> eq_sign \<notin> set (split_ws raw ! 1)
         \<or> eq_sign \<notin> set (split_ws raw ! 2)
         \<or> eq_sign \<notin> set (split_ws raw ! 3)"
  shows "get_secrets raw = Inl IndexError"
  using assms by (auto simp: get_secrets_eq Let_def)

theorem get_secrets_malformed_witness:
  "length (split_ws ''[default] aws_access_key_id=AKIA123 aws_secret_access_key=SECRET456'') < 4
   \<and> get_secrets ''[default] aws_access_key_id=AKIA123 aws_secret_access_key=SECRET456''
        = Inl IndexError
   \<and> eq_sign \<notin> set (split_ws ''a b=1 c d=2'' ! 2)
   \<and> get_secrets ''a b=1 c d=2'' = Inl IndexError"
proof -
  have h1: "length (split_ws ''[default] aws_access_key_id=AKIA123 aws_secret_access_key=SECRET456'') < 4"
    by code_simp
  have h2: "eq_sign \<notin> set (split_ws ''a b=1 c d=2'' ! 2)"
    by code_simp
  show ?thesis
    using h1 h2
      get_secrets_malformed [of "''[default] aws_access_key_id=AKIA123 aws_secret_access_key=SECRET456''"]
      get_secrets_malformed [of "''a b=1 c d=2''"]
    by blast
qed

text \<open>
  Claim C1, as stated, at a key that itself holds a \<^verbatim>\<open>=\<close>: the input has four tokens and
  each of the tokens 1, 2, 3 contains \<^verbatim>\<open>=\<close>, yet the first component returned is the text
  up to the second \<^verbatim>\<open>=\<close> of token 1 and not the whole of \<open>K = AKIA=123\<close>.
\<close>

theorem get_secrets_extra_eq_counterexample:
  "get_secrets ''info aws_access_key_id=AKIA=123 aws_secret_access_key=SECRET456 aws_session_token=TOK=EN=789''
     = Inr (''AKIA'', ''SECRET456'', ''TOK=EN=789'')
   \<and> get_secrets ''info aws_access_key_id=AKIA=123 aws_secret_access_key=SECRET456 aws_session_token=TOK=EN=789''
     \<noteq> Inr (''AKIA=123'', ''SECRET456'', ''TOK=EN=789'')"
  by code_simp

text \<open>
  Claim C1, amended. When the whitespace split of the input is an ignored token followed by
  \<^verbatim>\<open>aws_access_key_id=K\<close>, \<^verbatim>\<open>aws_secret_access_key=S\<close>, \<^verbatim>\<open>aws_session_token=T\<close> and any further
  tokens, and neither \<open>K\<close> nor \<open>S\<close> contains \<^verbatim>\<open>=\<close>, then \<open>get_secrets\<close> returns exactly
  \<open>(K, S, T)\<close>; \<open>T\<close> is everything after the first \<^verbatim>\<open>=\<close> of token 3 and may contain
  further \<^verbatim>\<open>=\<close>. The witness is the end-to-end example of the specification. Lemma
  \<open>split_ws_four\<close> gives the tokens of a string written with arbitrary whitespace between
  them.
\<close>

theorem get_secrets_well_formed:
  assumes "split_ws raw =
      ignored # (''aws_access_key_id='' @ K) # (''aws_secret_access_key='' @ S)
        # (''aws_session_token='' @ T) # others"
    and "eq_sign \<notin> set K" "eq_sign \<notin> set S"
  shows "get_secrets raw = Inr (K, S, T)"
proof -
  have "split_ws raw =
      ignored # (''aws_access_key_id'' @ eq_sign # K @ []) # (''aws_secret_access_key'' @ eq_sign # S @ [])
        # (''aws_session_token'' @ eq_sign # T) # others"
    using assms(1) by (simp add: eq_sign_def)
  then show ?thesis
    by (rule get_secrets_tokens) (use assms(2,3) in \<open>simp_all add: eq_sign_def\<close>)
qed

theorem get_secrets_well_formed_witness:
  "split_ws ''info aws_access_key_id=AKIA123 aws_secret_access_key=SECRET456 aws_session_token=TOK=EN=789''
     = ''info'' # (''aws_access_key_id='' @ ''AKIA123'') # (''aws_secret_access_key='' @ ''SECRET456'')
         # (''aws_session_token='' @ ''TOK=EN=789'') # []
   \<and> eq_sign \<notin> set ''AKIA123'' \<and> eq_sign \<notin> set ''SECRET456''
   \<and> get_secrets ''info aws_access_key_id=AKIA123 aws_secret_access_key=SECRET456 aws_session_token=TOK=EN=789''
     = Inr (''AKIA123'', ''SECRET456'', ''TOK=EN=789'')"
proof -
  have h1: "split_ws ''info aws_access_key_id=AKIA123 aws_secret_access_key=SECRET456 aws_session_token=TOK=EN=789''
     = ''info'' # (''aws_access_key_id='' @ ''AKIA123'') # (''aws_secret_access_key='' @ ''SECRET456'')
         # (''aws_session_token='' @ ''TOK=EN=789'') # []"
    by code_simp
  have h2: "eq_sign \<notin> set ''AKIA123''" and h3: "eq_sign \<notin> set ''SECRET456''"
    by (simp_all add: eq_sign_def)
  show ?thesis
    using h1 h2 h3 get_secrets_well_formed [OF h1 h2 h3] by blast
qed

text \<open>
  Claim C9. With at least four tokens, each of the tokens 1, 2, 3 holding a \<^verbatim>\<open>=\<close>, the
  result is the triple of the text between the first and the second \<^verbatim>\<open>=\<close> of token 1, the
  same of token 2, and everything after the first \<^verbatim>\<open>=\<close> of token 3. What follows a second
  \<^verbatim>\<open>=\<close> in token 1 or 2 (\<open>r1\<close>, \<open>r2\<close>) is dropped without an error, and a second input
  that differs in token 0, in the tokens after token 3 and in the dropped text gives the
  same result.
\<close>

theorem get_secrets_only_tokens_1_2_3:
  assumes "split_ws raw =
      t0 # (n1 @ eq_sign # v1 @ r1) # (n2 @ eq_sign # v2 @ r2) # (n3 @ eq_sign # v3) # rest"
    and "split_ws raw' =
      t0' # (n1 @ eq_sign # v1 @ r1') # (n2 @ eq_sign # v2 @ r2') # (n3 @ eq_sign # v3) # rest'"
    and "eq_sign \<notin> set n1" "eq_sign \<notin> set v1" "r1 = [] \<or> hd r1 = eq_sign" "r1' = [] \<or> hd r1' = eq_sign"
    and "eq_sign \<notin> set n2" "eq_sign \<notin> set v2" "r2 = [] \<or> hd r2 = eq_sign" "r2' = [] \<or> hd r2' = eq_sign"
    and "eq_sign \<notin> set n3"
  shows "get_secrets raw = Inr (v1, v2, v3) \<and> get_secrets raw' = get_secrets raw"
proof -
  have a: "get_secrets raw = Inr (v1, v2, v3)"
    using assms(1,3,4,5,7,8,9,11) by (rule get_secrets_tokens)
  have b: "get_secrets raw' = Inr (v1, v2, v3)"
    using assms(2,3,4,6,7,8,10,11) by (rule get_secrets_tokens)
  show ?thesis using a b by simp
qed

theorem get_secrets_only_tokens_1_2_3_witness:
  "get_secrets ''[default] aws_access_key_id=AKIA=x aws_secret_access_key=SECRET=y=z aws_session_token=TOK=EN''
     = Inr (''AKIA'', ''SECRET'', ''TOK=EN'')
   \<and> get_secrets ''other aws_access_key_id=AKIA aws_secret_access_key=SECRET= aws_session_token=TOK=EN and more''
     = get_secrets ''[default] aws_access_key_id=AKIA=x aws_secret_access_key=SECRET=y=z aws_session_token=TOK=EN''"
proof -
  have h1: "split_ws ''[default] aws_access_key_id=AKIA=x aws_secret_access_key=SECRET=y=z aws_session_token=TOK=EN''
      = ''[default]'' # (''aws_access_key_id'' @ eq_sign # ''AKIA'' @ ''=x'')
          # (''aws_secret_access_key'' @ eq_sign # ''SECRET'' @ ''=y=z'')
          # (''aws_session_token'' @ eq_sign # ''TOK=EN'') # []"
    by code_simp
  have h2: "split_ws ''other aws_access_key_id=AKIA aws_secret_access_key=SECRET= aws_session_token=TOK=EN and more''
      = ''other'' # (''aws_access_key_id'' @ eq_sign # ''AKIA'' @ [])
          # (''aws_secret_access_key'' @ eq_sign # ''SECRET'' @ ''='')
          # (''aws_session_token'' @ eq_sign # ''TOK=EN'') # [''and'', ''more'']"
    by code_simp
  show ?thesis
    by (rule get_secrets_only_tokens_1_2_3 [OF h1 h2]) (simp_all add: eq_sign_def)
qed

text \<open>
  Claim C5, as stated, at an input whose three values are empty: the parse succeeds and all
  three components are empty strings.
\<close>

theorem get_secrets_empty_counterexample:
  "get_secrets ''[default] aws_access_key_id= aws_secret_access_key= aws_session_token=''
     = Inr ('''', '''', '''')"
  by code_simp

text \<open>
  Claim C5, amended. When \<open>get_secrets\<close> succeeds, each component is the possibly empty
  text that follows the first \<^verbatim>\<open>=\<close> of its token (for the first two components, up to the
  next \<^verbatim>\<open>=\<close>: what is left of the token, \<open>r1\<close> and \<open>r2\<close>, is empty or starts with
  \<^verbatim>\<open>=\<close>), in the token order 1, 2, 3; it is a substring of the input, holds no
  whitespace, and the first two hold no \<^verbatim>\<open>=\<close>. By lemma \<open>get_secrets_tokens\<close> every
  such decomposition of the tokens gives back its triple, so it fixes the three components.
\<close>

theorem get_secrets_components:
  assumes "get_secrets raw = Inr (k, s, t)"
  shows "(\<exists>t0 n1 r1 n2 r2 n3 rest.
            split_ws raw = t0 # (n1 @ eq_sign # k @ r1) # (n2 @ eq_sign # s @ r2)
                              # (n3 @ eq_sign # t) # rest
            \<and> eq_sign \<notin> set n1 \<and> eq_sign \<notin> set n2 \<and> eq_sign \<notin> set n3
            \<and> (r1 = [] \<or> hd r1 = eq_sign) \<and> (r2 = [] \<or> hd r2 = eq_sign))
         \<and> eq_sign \<notin> set k \<and> eq_sign \<notin> set s
         \<and> list_all (\<lambda>x. \<not> isspace x) (k @ s @ t)
         \<and> sublist k raw \<and> sublist s raw \<and> sublist t raw"
  using assms by (rule get_secrets_shape)

theorem get_secrets_components_witness:
  "get_secrets ''info aws_access_key_id=AKIA123 aws_secret_access_key=SECRET456 aws_session_token=TOK=EN=789''
     = Inr (''AKIA123'', ''SECRET456'', ''TOK=EN=789'')
   \<and> eq_sign \<notin> set ''AKIA123'' \<and> eq_sign \<notin> set ''SECRET456''
   \<and> list_all (\<lambda>x. \<not> isspace x) (''AKIA123'' @ ''SECRET456'' @ ''TOK=EN=789'')
   \<and> sublist ''TOK=EN=789''
        ''info aws_access_key_id=AKIA123 aws_secret_access_key=SECRET456 aws_session_token=TOK=EN=789''"
proof -
  have h: "get_secrets ''info aws_access_key_id=AKIA123 aws_secret_access_key=SECRET456 aws_session_token=TOK=EN=789''
     = Inr (''AKIA123'', ''SECRET456'', ''TOK=EN=789'')"
    by code_simp
  show ?thesis
    using h get_secrets_components [OF h] by blast
qed

section \<open>What the persistence step appends\<close>

lemma split_on_Nil: "split_on sep [] = [[]]"
  by (simp add: split_on_none)

lemma split_on_line: "sep \<notin> set l \<Longrightarrow> split_on sep (l @ sep # rest) = l # split_on sep rest"
  by (simp add: split_on_some after_first_append takeWhile_value [of sep l "sep # rest"])

lemma split_on_unlines:
  "\<forall>l\<in>set ls. newline \<notin> set l \<Longrightarrow> split_on newline (unlines ls) = ls @ [[]]"
  by (induction ls) (simp_all add: unlines_def split_on_Nil split_on_line)

lemma lines_of_unlines:
  "\<forall>l\<in>set ls. newline \<notin> set l \<Longrightarrow> lines_of (unlines ls) = ls"
  by (simp add: lines_of_def split_on_unlines)

lemma length_split_on: "length (split_on sep s) = Suc (count_list s sep)"
proof (induction sep s rule: split_on.induct)
  case (1 sep s)
  show ?case
  proof (cases "sep \<in> set s")
    case True
    have d: "dropWhile (\<lambda>x. x \<noteq> sep) s = sep # after_first sep s"
      using True by (rule dropWhile_sep)
    have "length (split_on sep (after_first sep s)) = Suc (count_list (after_first sep s) sep)"
      using "1.IH" [OF d] .
    moreover have "count_list s sep = Suc (count_list (after_first sep s) sep)"
    proof -
      have "count_list (takeWhile (\<lambda>x. x \<noteq> sep) s) sep = 0"
        by (rule count_notin) (auto dest: set_takeWhileD)
      then have "count_list (takeWhile (\<lambda>x. x \<noteq> sep) s @ sep # after_first sep s) sep
                 = Suc (count_list (after_first sep s) sep)"
        by simp
      then show ?thesis using token_decompose [OF True] by simp
    qed
    ultimately show ?thesis using True by (simp add: split_on_some)
  next
    case False
    then show ?thesis by (simp add: split_on_none)
  qed
qed

lemma last_split_on_snoc: "last (split_on sep (s @ [sep])) = []"
proof (induction sep s rule: split_on.induct)
  case (1 sep s)
  show ?case
  proof (cases "sep \<in> set s")
    case True
    have d: "dropWhile (\<lambda>x. x \<noteq> sep) s = sep # after_first sep s"
      using True by (rule dropWhile_sep)
    have ih: "last (split_on sep (after_first sep s @ [sep])) = []"
      using "1.IH" [OF d] .
    define T where "T = takeWhile (\<lambda>x. x \<noteq> sep) s"
    define A where "A = after_first sep s"
    have "s = T @ sep # A"
      unfolding T_def A_def by (rule token_decompose [OF True])
    then have eq: "s @ [sep] = T @ sep # (A @ [sep])" by simp
    have nt: "sep \<notin> set T"
      unfolding T_def by (auto dest: set_takeWhileD)
    have "split_on sep (s @ [sep]) = T # split_on sep (A @ [sep])"
      unfolding eq by (rule split_on_line [OF nt])
    then have "split_on sep (s @ [sep])
        = takeWhile (\<lambda>x. x \<noteq> sep) s # split_on sep (after_first sep s @ [sep])"
      unfolding T_def A_def .
    then show ?thesis using ih by (simp add: split_on_not_Nil)
  next
    case False
    then show ?thesis by (simp add: split_on_line split_on_Nil)
  qed
qed

lemma length_lines_of_snoc: "length (lines_of (s @ [newline])) = Suc (count_list s newline)"
  by (simp add: lines_of_def last_split_on_snoc length_split_on)

lemma set_github_env_file:
  "set_github_env k s t fs =
     fs(''creds.txt'' \<mapsto> content fs ''creds.txt''
          @ ''AWS_ACCESS_KEY_ID='' @ k @ [newline]
          @ ''AWS_SECRET_ACCESS_KEY='' @ s @ [newline]
          @ ''AWS_SESSION_TOKEN='' @ t @ [newline])"
  by (simp add: set_github_env_def open_append_def file_write_def content_def Let_def)

lemma set_github_env_content:
  "content (set_github_env k s t fs) ''creds.txt''
     = content fs ''creds.txt''
         @ unlines [''AWS_ACCESS_KEY_ID='' @ k, ''AWS_SECRET_ACCESS_KEY='' @ s,
                    ''AWS_SESSION_TOKEN='' @ t]"
  by (simp add: set_github_env_file content_def unlines_def)

lemma key_lines_no_newline:
  "newline \<notin> set ''AWS_ACCESS_KEY_ID=''" "newline \<notin> set ''AWS_SECRET_ACCESS_KEY=''"
  "newline \<notin> set ''AWS_SESSION_TOKEN=''"
  by (simp_all add: newline_def)

lemma key_lines_count:
  "count_list ''AWS_ACCESS_KEY_ID='' newline = 0" "count_list ''AWS_SECRET_ACCESS_KEY='' newline = 0"
  "count_list ''AWS_SESSION_TOKEN='' newline = 0"
  by (rule count_notin, rule key_lines_no_newline)+

lemma count_newline: "count_list [newline] newline = 1"
  by simp

lemma unlines_append: "unlines (xs @ ys) = unlines xs @ unlines ys"
  by (simp add: unlines_def)

lemma set_github_env_other_files:
  "path \<noteq> ''creds.txt'' \<Longrightarrow> set_github_env k s t fs path = fs path"
  by (simp add: set_github_env_file)

lemma set_github_env_lines_no_newline:
  assumes "newline \<notin> set k" "newline \<notin> set s" "newline \<notin> set t"
  shows "content (set_github_env k s t fs) ''creds.txt''
           = content fs ''creds.txt''
               @ unlines [''AWS_ACCESS_KEY_ID='' @ k, ''AWS_SECRET_ACCESS_KEY='' @ s,
                          ''AWS_SESSION_TOKEN='' @ t]
         \<and> lines_of (unlines [''AWS_ACCESS_KEY_ID='' @ k, ''AWS_SECRET_ACCESS_KEY='' @ s,
                               ''AWS_SESSION_TOKEN='' @ t])
           = [''AWS_ACCESS_KEY_ID='' @ k, ''AWS_SECRET_ACCESS_KEY='' @ s,
              ''AWS_SESSION_TOKEN='' @ t]"
proof (rule conjI)
  show "content (set_github_env k s t fs) ''creds.txt''
           = content fs ''creds.txt''
               @ unlines [''AWS_ACCESS_KEY_ID='' @ k, ''AWS_SECRET_ACCESS_KEY='' @ s,
                          ''AWS_SESSION_TOKEN='' @ t]"
    by (rule set_github_env_content)
next
  have "\<forall>l\<in>set [''AWS_ACCESS_KEY_ID='' @ k, ''AWS_SECRET_ACCESS_KEY='' @ s,
                  ''AWS_SESSION_TOKEN='' @ t]. newline \<notin> set l"
    using assms key_lines_no_newline by simp
  then show "lines_of (unlines [''AWS_ACCESS_KEY_ID='' @ k, ''AWS_SECRET_ACCESS_KEY='' @ s,
                               ''AWS_SESSION_TOKEN='' @ t])
           = [''AWS_ACCESS_KEY_ID='' @ k, ''AWS_SECRET_ACCESS_KEY='' @ s,
              ''AWS_SESSION_TOKEN='' @ t]"
    by (rule lines_of_unlines)
qed

text \<open>
  Claim C3. A credential triple is a triple that \<open>get_secrets\<close> returns: the three strings
  extracted from the page text, which is what the entry point passes on. For every such
  triple, one call appends to \<^verbatim>\<open>creds.txt\<close> exactly three lines, each ended by a newline,
  with the keys \<^verbatim>\<open>AWS_ACCESS_KEY_ID\<close>, \<^verbatim>\<open>AWS_SECRET_ACCESS_KEY\<close>, \<^verbatim>\<open>AWS_SESSION_TOKEN\<close> in
  this order: the file is its prior content followed by the three lines, and the text added
  reads back as exactly these lines.
\<close>

theorem set_github_env_three_lines:
  assumes "get_secrets raw = Inr (k, s, t)"
  shows "content (set_github_env k s t fs) ''creds.txt''
           = content fs ''creds.txt''
               @ unlines [''AWS_ACCESS_KEY_ID='' @ k, ''AWS_SECRET_ACCESS_KEY='' @ s,
                          ''AWS_SESSION_TOKEN='' @ t]
         \<and> lines_of (unlines [''AWS_ACCESS_KEY_ID='' @ k, ''AWS_SECRET_ACCESS_KEY='' @ s,
                               ''AWS_SESSION_TOKEN='' @ t])
           = [''AWS_ACCESS_KEY_ID='' @ k, ''AWS_SECRET_ACCESS_KEY='' @ s,
              ''AWS_SESSION_TOKEN='' @ t]"
proof -
  have "newline \<notin> set k" "newline \<notin> set s" "newline \<notin> set t"
    using get_secrets_no_newline [OF assms] by simp_all
  then show ?thesis
    by (rule set_github_env_lines_no_newline)
qed

theorem set_github_env_three_lines_witness:
  "get_secrets ''info aws_access_key_id=AKIA123 aws_secret_access_key=SECRET456 aws_session_token=TOK=EN=789''
     = Inr (''AKIA123'', ''SECRET456'', ''TOK=EN=789'')
   \<and> content (set_github_env ''AKIA123'' ''SECRET456'' ''TOK=EN=789'' Map.empty) ''creds.txt''
       = unlines [''AWS_ACCESS_KEY_ID=AKIA123'', ''AWS_SECRET_ACCESS_KEY=SECRET456'',
                  ''AWS_SESSION_TOKEN=TOK=EN=789'']
   \<and> lines_of (unlines [''AWS_ACCESS_KEY_ID=AKIA123'', ''AWS_SECRET_ACCESS_KEY=SECRET456'',
                          ''AWS_SESSION_TOKEN=TOK=EN=789''])
       = [''AWS_ACCESS_KEY_ID=AKIA123'', ''AWS_SECRET_ACCESS_KEY=SECRET456'',
          ''AWS_SESSION_TOKEN=TOK=EN=789'']"
proof -
  have h: "get_secrets ''info aws_access_key_id=AKIA123 aws_secret_access_key=SECRET456 aws_session_token=TOK=EN=789''
     = Inr (''AKIA123'', ''SECRET456'', ''TOK=EN=789'')"
    by code_simp
  show ?thesis
    using h set_github_env_three_lines [OF h, of Map.empty] by (simp add: content_def)
qed

lemma set_github_env_twice_no_newline:
  assumes "newline \<notin> set (k1 @ s1 @ t1 @ k2 @ s2 @ t2)"
  shows "content (set_github_env k1 s1 t1 fs) ''creds.txt''
           = content fs ''creds.txt''
               @ unlines [''AWS_ACCESS_KEY_ID='' @ k1, ''AWS_SECRET_ACCESS_KEY='' @ s1,
                          ''AWS_SESSION_TOKEN='' @ t1]
         \<and> content (set_github_env k2 s2 t2 (set_github_env k1 s1 t1 fs)) ''creds.txt''
           = content fs ''creds.txt''
               @ unlines [''AWS_ACCESS_KEY_ID='' @ k1, ''AWS_SECRET_ACCESS_KEY='' @ s1,
                          ''AWS_SESSION_TOKEN='' @ t1,
                          ''AWS_ACCESS_KEY_ID='' @ k2, ''AWS_SECRET_ACCESS_KEY='' @ s2,
                          ''AWS_SESSION_TOKEN='' @ t2]
         \<and> lines_of (unlines [''AWS_ACCESS_KEY_ID='' @ k1, ''AWS_SECRET_ACCESS_KEY='' @ s1,
                               ''AWS_SESSION_TOKEN='' @ t1,
                               ''AWS_ACCESS_KEY_ID='' @ k2, ''AWS_SECRET_ACCESS_KEY='' @ s2,
                               ''AWS_SESSION_TOKEN='' @ t2])
           = [''AWS_ACCESS_KEY_ID='' @ k1, ''AWS_SECRET_ACCESS_KEY='' @ s1,
              ''AWS_SESSION_TOKEN='' @ t1,
              ''AWS_ACCESS_KEY_ID='' @ k2, ''AWS_SECRET_ACCESS_KEY='' @ s2,
              ''AWS_SESSION_TOKEN='' @ t2]"
proof (intro conjI)
  show "content (set_github_env k1 s1 t1 fs) ''creds.txt''
           = content fs ''creds.txt''
               @ unlines [''AWS_ACCESS_KEY_ID='' @ k1, ''AWS_SECRET_ACCESS_KEY='' @ s1,
                          ''AWS_SESSION_TOKEN='' @ t1]"
    by (rule set_github_env_content)
next
  have "content (set_github_env k2 s2 t2 (set_github_env k1 s1 t1 fs)) ''creds.txt''
      = (content fs ''creds.txt''
          @ unlines [''AWS_ACCESS_KEY_ID='' @ k1, ''AWS_SECRET_ACCESS_KEY='' @ s1,
                     ''AWS_SESSION_TOKEN='' @ t1])
          @ unlines [''AWS_ACCESS_KEY_ID='' @ k2, ''AWS_SECRET_ACCESS_KEY='' @ s2,
                     ''AWS_SESSION_TOKEN='' @ t2]"
    by (simp only: set_github_env_content)
  also have "\<dots> = content fs ''creds.txt''
          @ unlines ([''AWS_ACCESS_KEY_ID='' @ k1, ''AWS_SECRET_ACCESS_KEY='' @ s1,
                      ''AWS_SESSION_TOKEN='' @ t1]
                     @ [''AWS_ACCESS_KEY_ID='' @ k2, ''AWS_SECRET_ACCESS_KEY='' @ s2,
                        ''AWS_SESSION_TOKEN='' @ t2])"
    by (simp only: unlines_append append_assoc)
  finally show "content (set_github_env k2 s2 t2 (set_github_env k1 s1 t1 fs)) ''creds.txt''
           = content fs ''creds.txt''
               @ unlines [''AWS_ACCESS_KEY_ID='' @ k1, ''AWS_SECRET_ACCESS_KEY='' @ s1,
                          ''AWS_SESSION_TOKEN='' @ t1,
                          ''AWS_ACCESS_KEY_ID='' @ k2, ''AWS_SECRET_ACCESS_KEY='' @ s2,
                          ''AWS_SESSION_TOKEN='' @ t2]"
    by simp
next
  have "\<forall>l\<in>set [''AWS_ACCESS_KEY_ID='' @ k1, ''AWS_SECRET_ACCESS_KEY='' @ s1,
                  ''AWS_SESSION_TOKEN='' @ t1,
                  ''AWS_ACCESS_KEY_ID='' @ k2, ''AWS_SECRET_ACCESS_KEY='' @ s2,
                  ''AWS_SESSION_TOKEN='' @ t2]. newline \<notin> set l"
    using assms key_lines_no_newline by simp
  then show "lines_of (unlines [''AWS_ACCESS_KEY_ID='' @ k1, ''AWS_SECRET_ACCESS_KEY='' @ s1,
                               ''AWS_SESSION_TOKEN='' @ t1,
                               ''AWS_ACCESS_KEY_ID='' @ k2, ''AWS_SECRET_ACCESS_KEY='' @ s2,
                               ''AWS_SESSION_TOKEN='' @ t2])
           = [''AWS_ACCESS_KEY_ID='' @ k1, ''AWS_SECRET_ACCESS_KEY='' @ s1,
              ''AWS_SESSION_TOKEN='' @ t1,
              ''AWS_ACCESS_KEY_ID='' @ k2, ''AWS_SECRET_ACCESS_KEY='' @ s2,
              ''AWS_SESSION_TOKEN='' @ t2]"
    by (rule lines_of_unlines)
qed

text \<open>
  Claim C4. A call leaves the prior content of \<^verbatim>\<open>creds.txt\<close> in place and adds its text
  after it, for every prior content; nothing is cut and nothing is merged. Two calls with
  credential triples (triples that \<open>get_secrets\<close> returns, equal or not) leave the prior
  content followed by six lines, in the order of the calls. Lemma
  \<open>set_github_env_other_files\<close> says that no other file changes.
\<close>

theorem set_github_env_twice:
  assumes "get_secrets raw1 = Inr (k1, s1, t1)" and "get_secrets raw2 = Inr (k2, s2, t2)"
  shows "content (set_github_env k1 s1 t1 fs) ''creds.txt''
           = content fs ''creds.txt''
               @ unlines [''AWS_ACCESS_KEY_ID='' @ k1, ''AWS_SECRET_ACCESS_KEY='' @ s1,
                          ''AWS_SESSION_TOKEN='' @ t1]
         \<and> content (set_github_env k2 s2 t2 (set_github_env k1 s1 t1 fs)) ''creds.txt''
           = content fs ''creds.txt''
               @ unlines [''AWS_ACCESS_KEY_ID='' @ k1, ''AWS_SECRET_ACCESS_KEY='' @ s1,
                          ''AWS_SESSION_TOKEN='' @ t1,
                          ''AWS_ACCESS_KEY_ID='' @ k2, ''AWS_SECRET_ACCESS_KEY='' @ s2,
                          ''AWS_SESSION_TOKEN='' @ t2]
         \<and> lines_of (unlines [''AWS_ACCESS_KEY_ID='' @ k1, ''AWS_SECRET_ACCESS_KEY='' @ s1,
                               ''AWS_SESSION_TOKEN='' @ t1,
                               ''AWS_ACCESS_KEY_ID='' @ k2, ''AWS_SECRET_ACCESS_KEY='' @ s2,
                               ''AWS_SESSION_TOKEN='' @ t2])
           = [''AWS_ACCESS_KEY_ID='' @ k1, ''AWS_SECRET_ACCESS_KEY='' @ s1,
              ''AWS_SESSION_TOKEN='' @ t1,
              ''AWS_ACCESS_KEY_ID='' @ k2, ''AWS_SECRET_ACCESS_KEY='' @ s2,
              ''AWS_SESSION_TOKEN='' @ t2]"
proof -
  have "newline \<notin> set (k1 @ s1 @ t1 @ k2 @ s2 @ t2)"
    using get_secrets_no_newline [OF assms(1)] get_secrets_no_newline [OF assms(2)] by simp
  then show ?thesis
    by (rule set_github_env_twice_no_newline)
qed

theorem set_github_env_twice_witness:
  "get_secrets ''[default] aws_access_key_id=K1 aws_secret_access_key=S1 aws_session_token=T1''
     = Inr (''K1'', ''S1'', ''T1'')
   \<and> get_secrets ''[default] aws_access_key_id=K2 aws_secret_access_key=S2 aws_session_token=T2''
     = Inr (''K2'', ''S2'', ''T2'')
   \<and> content (set_github_env ''K2'' ''S2'' ''T2'' (set_github_env ''K1'' ''S1'' ''T1'' Map.empty))
        ''creds.txt''
       = unlines [''AWS_ACCESS_KEY_ID=K1'', ''AWS_SECRET_ACCESS_KEY=S1'', ''AWS_SESSION_TOKEN=T1'',
                  ''AWS_ACCESS_KEY_ID=K2'', ''AWS_SECRET_ACCESS_KEY=S2'', ''AWS_SESSION_TOKEN=T2'']
   \<and> lines_of (unlines [''AWS_ACCESS_KEY_ID=K1'', ''AWS_SECRET_ACCESS_KEY=S1'',
                          ''AWS_SESSION_TOKEN=T1'', ''AWS_ACCESS_KEY_ID=K2'',
                          ''AWS_SECRET_ACCESS_KEY=S2'', ''AWS_SESSION_TOKEN=T2''])
       = [''AWS_ACCESS_KEY_ID=K1'', ''AWS_SECRET_ACCESS_KEY=S1'', ''AWS_SESSION_TOKEN=T1'',
          ''AWS_ACCESS_KEY_ID=K2'', ''AWS_SECRET_ACCESS_KEY=S2'', ''AWS_SESSION_TOKEN=T2'']"
proof -
  have h1: "get_secrets ''[default] aws_access_key_id=K1 aws_secret_access_key=S1 aws_session_token=T1''
     = Inr (''K1'', ''S1'', ''T1'')"
    and h2: "get_secrets ''[default] aws_access_key_id=K2 aws_secret_access_key=S2 aws_session_token=T2''
     = Inr (''K2'', ''S2'', ''T2'')"
    by code_simp+
  show ?thesis
    using h1 h2 set_github_env_twice [OF h1 h2, of Map.empty] by (simp add: content_def)
qed

text \<open>
  Claim C10. The text added is exactly the three keys, each followed by \<^verbatim>\<open>=\<close>, the value as
  it was given and a newline; nothing is escaped or checked. It reads back as three lines
  exactly when no value holds a newline.
\<close>

theorem set_github_env_verbatim:
  "content (set_github_env k s t fs) ''creds.txt''
     = content fs ''creds.txt''
         @ (''AWS_ACCESS_KEY_ID='' @ k @ [newline] @ ''AWS_SECRET_ACCESS_KEY='' @ s @ [newline]
            @ ''AWS_SESSION_TOKEN='' @ t @ [newline])
   \<and> (length (lines_of (''AWS_ACCESS_KEY_ID='' @ k @ [newline] @ ''AWS_SECRET_ACCESS_KEY='' @ s
                          @ [newline] @ ''AWS_SESSION_TOKEN='' @ t @ [newline])) = 3
        \<longleftrightarrow> newline \<notin> set k \<and> newline \<notin> set s \<and> newline \<notin> set t)"
proof -
  have c: "content (set_github_env k s t fs) ''creds.txt''
     = content fs ''creds.txt''
         @ (''AWS_ACCESS_KEY_ID='' @ k @ [newline] @ ''AWS_SECRET_ACCESS_KEY='' @ s @ [newline]
            @ ''AWS_SESSION_TOKEN='' @ t @ [newline])"
    by (simp add: set_github_env_file content_def)
  have "length (lines_of ((''AWS_ACCESS_KEY_ID='' @ k @ [newline] @ ''AWS_SECRET_ACCESS_KEY='' @ s
                          @ [newline] @ ''AWS_SESSION_TOKEN='' @ t) @ [newline]))
          = 3 + count_list k newline + count_list s newline + count_list t newline"
    unfolding length_lines_of_snoc
    by (simp only: count_list_append key_lines_count count_newline)
  then have "length (lines_of (''AWS_ACCESS_KEY_ID='' @ k @ [newline] @ ''AWS_SECRET_ACCESS_KEY='' @ s
                          @ [newline] @ ''AWS_SESSION_TOKEN='' @ t @ [newline])) = 3
        \<longleftrightarrow> newline \<notin> set k \<and> newline \<notin> set s \<and> newline \<notin> set t"
    by (simp add: count_list_0_iff)
  then show ?thesis using c by blast
qed

section \<open>The control flow of the entry point\<close>

lemmas io_defs = main_def getenv_def AWS_init_def login_def configure_aws_def get_secrets_io_def
  set_github_env_io_def try_body_def on_error_def bind_def perform_def log_info_def log_error_def
  try_except_def raise_def ret_def time_now_def get_attribute_def get_text_content_def Let_def



lemma sublist_green: "sublist ''led-green'' ''led led-green''"
  by code_simp


lemma get_secrets_bad_text: "get_secrets ''session expired'' = Inl IndexError"
  by code_simp

lemma login_timeout:
  assumes "list_all (\<lambda>a. respond w a = Done) (drop 4 (login_calls email password))"
    and "respond w (WaitForUrl ''https://awsacademy.instructure.com/?login_success=1'' 15000)
           = Raises cause"
    and "respond w (Screenshot ''screenshots/3-login_error.png'') = Done"
  shows "login \<lparr>screenshots = ''screenshots''\<rparr> email password w st =
     (Raise (During
        (Exception ''Login falhou! Verifique suas credenciais ou se o site mudou o layout.'')
        cause),
      st\<lparr>trace := trace st @
        [LogInfo ''[*] Fazendo login...'',
         Goto ''https://www.awsacademy.com/vforcesite/LMS_Login'',
         Click ''body > div.splash-body > a:nth-child(1) > button'',
         Screenshot ''screenshots/1-click_start.png'',
         Fill ''#pseudonym_session_unique_id'' email,
         Fill ''#pseudonym_session_password'' password,
         Screenshot ''screenshots/2-send_data.png'',
         Click ''#login_form > div.ic-Login__actions > div.ic-Form-control.ic-Form-control--login > input'',
         WaitForUrl ''https://awsacademy.instructure.com/?login_success=1'' 15000,
         LogError (''[!] Falha no login: credenciais inv'' @ [CHR 0xE1] @ ''lidas ou p''
                        @ [CHR 0xE1] @ ''gina n'' @ [CHR 0xE3] @ ''o carregou corretamente''),
         Screenshot ''screenshots/3-login_error.png'']\<rparr>)"
  using assms
  by (simp add: login_def login_calls_def bind_def perform_def log_info_def log_error_def
      try_except_def raise_def ret_def)

text \<open>
  Claim C7. In every world where the calls of the login up to the submit click return, the
  wait for the success URL (bound: 15000 ms) raises \<open>cause\<close>, and the screenshot call of
  the handler returns, the program ends with the login exception, whose context is
  \<open>cause\<close>. The trace shows the one wait (no second attempt), the error screenshot
  \<^verbatim>\<open>3-login_error.png\<close> after it, and no call of \<^verbatim>\<open>configure_aws\<close>, of the parser or of the
  file append; the files are as before.
\<close>

theorem login_timeout_fails_before_extraction:
  assumes "environ w ''EMAIL'' = Some email" and "environ w ''PASSWORD'' = Some password"
    and "list_all (\<lambda>a. respond w a = Done) (login_calls email password)"
    and "respond w (WaitForUrl ''https://awsacademy.instructure.com/?login_success=1'' 15000)
           = Raises cause"
    and "respond w (Screenshot ''screenshots/3-login_error.png'') = Done"
  shows "main w st =
     (Raise (During
        (Exception ''Login falhou! Verifique suas credenciais ou se o site mudou o layout.'')
        cause),
      st\<lparr>trace := trace st @
        [StartPlaywright, LaunchChromium True, NewContext, NewPage,
         LogInfo ''[+] Navegador iniciado'',
         LogInfo ''[*] Fazendo login...'',
         Goto ''https://www.awsacademy.com/vforcesite/LMS_Login'',
         Click ''body > div.splash-body > a:nth-child(1) > button'',
         Screenshot ''screenshots/1-click_start.png'',
         Fill ''#pseudonym_session_unique_id'' email,
         Fill ''#pseudonym_session_password'' password,
         Screenshot ''screenshots/2-send_data.png'',
         Click ''#login_form > div.ic-Login__actions > div.ic-Form-control.ic-Form-control--login > input'',
         WaitForUrl ''https://awsacademy.instructure.com/?login_success=1'' 15000,
         LogError (''[!] Falha no login: credenciais inv'' @ [CHR 0xE1] @ ''lidas ou p''
                        @ [CHR 0xE1] @ ''gina n'' @ [CHR 0xE3] @ ''o carregou corretamente''),
         Screenshot ''screenshots/3-login_error.png'']\<rparr>)"
proof -
  have calls: "list_all (\<lambda>a. respond w a = Done) (drop 4 (login_calls email password))"
    using assms(3) by (simp add: login_calls_def)
  have start: "respond w StartPlaywright = Done" "respond w (LaunchChromium True) = Done"
    "respond w NewContext = Done" "respond w NewPage = Done"
    using assms(3) by (simp_all add: login_calls_def)
  show ?thesis
    using assms(1,2) start
    by (simp add: main_def getenv_def AWS_init_def bind_def perform_def log_info_def Let_def
        login_timeout [OF calls assms(4,5)])
qed

theorem login_timeout_fails_before_extraction_witness:
  "main world_login_timeout init_state =
     (Raise (During
        (Exception ''Login falhou! Verifique suas credenciais ou se o site mudou o layout.'')
        (BrowserError ''Timeout 15000ms exceeded.'')),
      \<lparr>trace =
        [StartPlaywright, LaunchChromium True, NewContext, NewPage,
         LogInfo ''[+] Navegador iniciado'',
         LogInfo ''[*] Fazendo login...'',
         Goto ''https://www.awsacademy.com/vforcesite/LMS_Login'',
         Click ''body > div.splash-body > a:nth-child(1) > button'',
         Screenshot ''screenshots/1-click_start.png'',
         Fill ''#pseudonym_session_unique_id'' ''student@example.com'',
         Fill ''#pseudonym_session_password'' ''hunter2'',
         Screenshot ''screenshots/2-send_data.png'',
         Click ''#login_form > div.ic-Login__actions > div.ic-Form-control.ic-Form-control--login > input'',
         WaitForUrl ''https://awsacademy.instructure.com/?login_success=1'' 15000,
         LogError (''[!] Falha no login: credenciais inv'' @ [CHR 0xE1] @ ''lidas ou p''
                        @ [CHR 0xE1] @ ''gina n'' @ [CHR 0xE3] @ ''o carregou corretamente''),
         Screenshot ''screenshots/3-login_error.png''],
       files = Map.empty\<rparr>)"
proof -
  have h1: "environ world_login_timeout ''EMAIL'' = Some ''student@example.com''"
    and h2: "environ world_login_timeout ''PASSWORD'' = Some ''hunter2''"
    by (simp_all add: world_login_timeout_def world_ok_def)
  have h3: "list_all (\<lambda>a. respond world_login_timeout a = Done)
              (login_calls ''student@example.com'' ''hunter2'')"
    by (simp add: world_login_timeout_def world_ok_def login_calls_def)
  have h4: "respond world_login_timeout
              (WaitForUrl ''https://awsacademy.instructure.com/?login_success=1'' 15000)
            = Raises (BrowserError ''Timeout 15000ms exceeded.'')"
    by (simp add: world_login_timeout_def world_ok_def)
  have h5: "respond world_login_timeout (Screenshot ''screenshots/3-login_error.png'') = Done"
    by (simp add: world_login_timeout_def world_ok_def)
  show ?thesis
    using login_timeout_fails_before_extraction [OF h1 h2 h3 h4 h5, of init_state]
    by (simp add: init_state_def)
qed












lemma main_login_timeout:
  "main world_login_timeout init_state =
     (Raise (During
        (Exception ''Login falhou! Verifique suas credenciais ou se o site mudou o layout.'')
        (BrowserError ''Timeout 15000ms exceeded.'')),
      \<lparr>trace =
        [StartPlaywright, LaunchChromium True, NewContext, NewPage,
         LogInfo ''[+] Navegador iniciado'',
         LogInfo ''[*] Fazendo login...'',
         Goto ''https://www.awsacademy.com/vforcesite/LMS_Login'',
         Click ''body > div.splash-body > a:nth-child(1) > button'',
         Screenshot ''screenshots/1-click_start.png'',
         Fill ''#pseudonym_session_unique_id'' ''student@example.com'',
         Fill ''#pseudonym_session_password'' ''hunter2'',
         Screenshot ''screenshots/2-send_data.png'',
         Click ''#login_form > div.ic-Login__actions > div.ic-Form-control.ic-Form-control--login > input'',
         WaitForUrl ''https://awsacademy.instructure.com/?login_success=1'' 15000,
         LogError (''[!] Falha no login: credenciais inv'' @ [CHR 0xE1] @ ''lidas ou p''
                        @ [CHR 0xE1] @ ''gina n'' @ [CHR 0xE3] @ ''o carregou corretamente''),
         Screenshot ''screenshots/3-login_error.png''],
       files = Map.empty\<rparr>)"
  by (simp add: io_defs world_login_timeout_def world_ok_def init_state_def)

text \<open>
  Claim C6, as stated, at a login whose success URL is never reached: the exception leaves
  the constructor, which runs before the \<^verbatim>\<open>try\<close> of the entry point, so the handler does
  not run. In this run no directory is made, no timestamped screenshot is taken and no path
  is logged.
\<close>

theorem login_failure_skips_handler_counterexample:
  "fst (main world_login_timeout init_state)
     = Raise (During
        (Exception ''Login falhou! Verifique suas credenciais ou se o site mudou o layout.'')
        (BrowserError ''Timeout 15000ms exceeded.''))
   \<and> MakeDirs ''screenshots'' \<notin> set (trace (snd (main world_login_timeout init_state)))
   \<and> Screenshot (error_path (clock world_login_timeout))
        \<notin> set (trace (snd (main world_login_timeout init_state)))
   \<and> LogInfo (''Screenshot salvo em: '' @ error_path (clock world_login_timeout))
        \<notin> set (trace (snd (main world_login_timeout init_state)))"
  by (simp add: main_login_timeout error_path_def)

text \<open>
  Claim C6, amended. When the session has been constructed and the body of the \<^verbatim>\<open>try\<close>
  (\<^verbatim>\<open>configure_aws\<close>, \<^verbatim>\<open>get_secrets\<close>, \<^verbatim>\<open>set_github_env\<close>) raises \<open>error\<close>, and the
  directory and screenshot calls of the handler return, the entry point calls
  \<^verbatim>\<open>makedirs\<close> on the diagnostics directory, takes the screenshot named after the clock,
  logs its path and raises \<^verbatim>\<open>Exception(error)\<close>, whose context is \<open>error\<close>, so that the
  run ends with an exception.
\<close>

theorem extraction_failure_handler:
  assumes "environ w ''EMAIL'' = Some email" and "environ w ''PASSWORD'' = Some password"
    and "AWS_init email password True w st = (Ret aws, st1)"
    and "try_body aws ''130670'' w st1 = (Raise error, st2)"
    and "respond w (MakeDirs ''screenshots'') = Done"
    and "respond w (Screenshot (error_path (clock w))) = Done"
  shows "main w st =
     (Raise (During (ExceptionOf error) error),
      st2\<lparr>trace := trace st2 @
        [MakeDirs ''screenshots'',
         Screenshot (error_path (clock w)),
         LogInfo (''Screenshot salvo em: '' @ error_path (clock w))]\<rparr>)"
  using assms
  by (simp add: main_def getenv_def bind_def try_except_def on_error_def perform_def
      time_now_def log_info_def raise_def)

theorem extraction_failure_handler_witness:
  "main world_bad_text init_state =
     (Raise (During (ExceptionOf IndexError) IndexError),
      \<lparr>trace =
        [StartPlaywright, LaunchChromium True, NewContext, NewPage,
         LogInfo ''[+] Navegador iniciado'',
         LogInfo ''[*] Fazendo login...'',
         Goto ''https://www.awsacademy.com/vforcesite/LMS_Login'',
         Click ''body > div.splash-body > a:nth-child(1) > button'',
         Screenshot ''screenshots/1-click_start.png'',
         Fill ''#pseudonym_session_unique_id'' ''student@example.com'',
         Fill ''#pseudonym_session_password'' ''hunter2'',
         Screenshot ''screenshots/2-send_data.png'',
         Click ''#login_form > div.ic-Login__actions > div.ic-Form-control.ic-Form-control--login > input'',
         WaitForUrl ''https://awsacademy.instructure.com/?login_success=1'' 15000,
         LogInfo (''[+] Login conclu'' @ [CHR 0xED] @ ''do com sucesso''),
         Screenshot ''screenshots/3-conclude_login.png'',
         LogInfo ''[+] Entrando na AWS'',
         Goto ''https://awsacademy.instructure.com/courses/130670/modules/items/12498015'',
         WaitForLoadState ''domcontentloaded'' 0,
         Screenshot ''screenshots/4-configure_aws.png'',
         LogInfo ''[*] Verificando status da conta'',
         LocatorWaitFor ''#vmstatus'' ''attached'' 30000,
         LocatorGetAttribute ''#vmstatus'' ''class'',
         Screenshot ''screenshots/5-configure_aws_status.png'',
         LogInfo (''[*] Coletando informa'' @ [CHR 0xE7, CHR 0xF5] @ ''es da AWS''),
         LocatorClick ''#detailbtn2'',
         LocatorClick ''#clikeyboxbtn'',
         Screenshot ''screenshots/6-show_aws_credentials.png'',
         LocatorWaitFor ''#clikeybox > pre > span'' ''attached'' 0,
         LocatorTextContent ''#clikeybox > pre > span'',
         MakeDirs ''screenshots'',
         Screenshot ''screenshots/screenshot_error_1700000000.png'',
         LogInfo ''Screenshot salvo em: screenshots/screenshot_error_1700000000.png''],
       files = Map.empty\<rparr>)"
proof -
  define st1 where "st1 =
      \<lparr>trace =
        [StartPlaywright, LaunchChromium True, NewContext, NewPage,
         LogInfo ''[+] Navegador iniciado'',
         LogInfo ''[*] Fazendo login...'',
         Goto ''https://www.awsacademy.com/vforcesite/LMS_Login'',
         Click ''body > div.splash-body > a:nth-child(1) > button'',
         Screenshot ''screenshots/1-click_start.png'',
         Fill ''#pseudonym_session_unique_id'' ''student@example.com'',
         Fill ''#pseudonym_session_password'' ''hunter2'',
         Screenshot ''screenshots/2-send_data.png'',
         Click ''#login_form > div.ic-Login__actions > div.ic-Form-control.ic-Form-control--login > input'',
         WaitForUrl ''https://awsacademy.instructure.com/?login_success=1'' 15000,
         LogInfo (''[+] Login conclu'' @ [CHR 0xED] @ ''do com sucesso''),
         Screenshot ''screenshots/3-conclude_login.png''],
       files = (Map.empty :: files)\<rparr>"
  define st2 where "st2 = st1\<lparr>trace := trace st1 @
        [LogInfo ''[+] Entrando na AWS'',
         Goto ''https://awsacademy.instructure.com/courses/130670/modules/items/12498015'',
         WaitForLoadState ''domcontentloaded'' 0,
         Screenshot ''screenshots/4-configure_aws.png'',
         LogInfo ''[*] Verificando status da conta'',
         LocatorWaitFor ''#vmstatus'' ''attached'' 30000,
         LocatorGetAttribute ''#vmstatus'' ''class'',
         Screenshot ''screenshots/5-configure_aws_status.png'',
         LogInfo (''[*] Coletando informa'' @ [CHR 0xE7, CHR 0xF5] @ ''es da AWS''),
         LocatorClick ''#detailbtn2'',
         LocatorClick ''#clikeyboxbtn'',
         Screenshot ''screenshots/6-show_aws_credentials.png'',
         LocatorWaitFor ''#clikeybox > pre > span'' ''attached'' 0,
         LocatorTextContent ''#clikeybox > pre > span'']\<rparr>"
  have h1: "environ world_bad_text ''EMAIL'' = Some ''student@example.com''"
    and h2: "environ world_bad_text ''PASSWORD'' = Some ''hunter2''"
    by (simp_all add: world_bad_text_def world_ok_def)
  have h3: "AWS_init ''student@example.com'' ''hunter2'' True world_bad_text init_state
              = (Ret \<lparr>screenshots = ''screenshots''\<rparr>, st1)"
    unfolding st1_def
    by (simp add: io_defs world_bad_text_def world_ok_def init_state_def)
  have h4: "try_body \<lparr>screenshots = ''screenshots''\<rparr> ''130670'' world_bad_text st1
              = (Raise IndexError, st2)"
    unfolding st2_def st1_def
    by (simp add: io_defs world_bad_text_def world_ok_def sublist_green get_secrets_bad_text)
  have h5: "respond world_bad_text (MakeDirs ''screenshots'') = Done"
    and h6: "respond world_bad_text (Screenshot (error_path (clock world_bad_text))) = Done"
    by (simp_all add: world_bad_text_def world_ok_def)
  have p: "error_path (clock world_bad_text) = ''screenshots/screenshot_error_1700000000.png''"
    by (simp add: world_bad_text_def world_ok_def error_path_def str_int_def digits.simps)
  show ?thesis
    using extraction_failure_handler [OF h1 h2 h3 h4 h5 h6]
    by (simp add: p st2_def st1_def)
qed

end
